theory Spec2Isabelle
  imports Complex_Main "HOL-Library.Sublist" "HOL-Library.Code_Target_Nat"
begin

section \<open>Python strings\<close>

text \<open>
  A Python \<open>str\<close> is a sequence of Unicode code points, so a character is modelled by its
  code point and a string by the list of its code points. The rupee sign of the price
  patterns is the single code point U+20B9.

  Whitespace is the full list of \<open>str.isspace\<close>, which \<open>strip()\<close>, \<open>split()\<close> and the
  pattern class \<open>\s\<close> share. Digits (\<open>\d\<close>), word characters (\<open>\w\<close>) and \<open>lower()\<close> are
  given on ASCII; every other code point outside the whitespace list counts as a symbol:
  no digit, no word character, unchanged by \<open>lower()\<close>. The rupee sign is such a symbol
  in Python as well. Numbers are exact rationals: the rounding of IEEE doubles is outside
  the model.
\<close>

type_synonym uchar = nat
type_synonym ustr = "uchar list"

definition u :: "string \<Rightarrow> ustr" where
  "u s = map of_char s"

definition rupee :: uchar where
  "rupee = 8377"

definition is_space :: "uchar \<Rightarrow> bool" where
  "is_space c \<longleftrightarrow>
     (9 \<le> c \<and> c \<le> 13) \<or> (28 \<le> c \<and> c \<le> 32) \<or> c = 133 \<or> c = 160 \<or> c = 5760 \<or>
     (8192 \<le> c \<and> c \<le> 8202) \<or> c = 8232 \<or> c = 8233 \<or> c = 8239 \<or> c = 8287 \<or> c = 12288"

definition is_digit :: "uchar \<Rightarrow> bool" where
  "is_digit c \<longleftrightarrow> 48 \<le> c \<and> c \<le> 57"

definition is_word :: "uchar \<Rightarrow> bool" where
  "is_word c \<longleftrightarrow> is_digit c \<or> (65 \<le> c \<and> c \<le> 90) \<or> (97 \<le> c \<and> c \<le> 122) \<or> c = 95"

definition lower_chr :: "uchar \<Rightarrow> uchar" where
  "lower_chr c = (if 65 \<le> c \<and> c \<le> 90 then c + 32 else c)"

definition lower :: "ustr \<Rightarrow> ustr" where
  "lower s = map lower_chr s"

definition strip :: "ustr \<Rightarrow> ustr" where
  "strip s = rev (dropWhile is_space (rev (dropWhile is_space s)))"

text \<open>\<open>s.replace(',', '')\<close>\<close>

definition remove_commas :: "ustr \<Rightarrow> ustr" where
  "remove_commas s = filter (\<lambda>c. c \<noteq> 44) s"

text \<open>
  \<open>float(t)\<close> on the decimal literals \<open>digits\<close> and \<open>digits.digits\<close>, the only shapes a
  captured number has once its commas are removed. Any other text is reported as the
  \<open>ValueError\<close> of \<open>float\<close>.
\<close>

definition digits_value :: "ustr \<Rightarrow> nat" where
  "digits_value ds = foldl (\<lambda>acc c. 10 * acc + (c - 48)) 0 ds"

definition py_float :: "ustr \<Rightarrow> rat option" where
  "py_float t =
     (let ip = takeWhile is_digit t; rest = dropWhile is_digit t in
      if ip = [] then None
      else case rest of
        [] \<Rightarrow> Some (of_nat (digits_value ip))
      | c # fp \<Rightarrow>
          if c = 46 \<and> fp \<noteq> [] \<and> list_all is_digit fp
          then Some (of_nat (digits_value ip) + of_nat (digits_value fp) / 10 ^ length fp)
          else None)"

section \<open>Regular expressions\<close>

text \<open>
  The patterns of the source use literals, classes, \<open>?\<close>, \<open>*\<close>, \<open>+\<close>, groups and \<open>$\<close>.
  \<open>matches r (s, g)\<close> lists every way \<open>r\<close> can match a prefix of \<open>s\<close>, as the rest of
  the text and the groups captured, in the order in which Python's backtracking matcher
  tries them: the quantifiers are greedy, so the longer match comes first. The head of
  the list is the match that \<open>re\<close> reports.
\<close>

datatype regex =
    Atom "uchar \<Rightarrow> bool"
  | Seq regex regex
  | Opt regex
  | Star regex
  | Group nat regex
  | Eos

type_synonym caps = "(nat \<times> ustr) list"

fun matches :: "regex \<Rightarrow> ustr \<times> caps \<Rightarrow> (ustr \<times> caps) list" where
  "matches (Atom p) (s, g) = (case s of [] \<Rightarrow> [] | c # t \<Rightarrow> if p c then [(t, g)] else [])"
| "matches (Seq r1 r2) x = concat (map (matches r2) (matches r1 x))"
| "matches (Opt r) x = matches r x @ [x]"
| "matches (Star r) (s, g) =
     concat (map (\<lambda>(s', g'). if length s' < length s then matches (Star r) (s', g') else [])
                 (matches r (s, g))) @ [(s, g)]"
| "matches (Group n r) (s, g) =
     map (\<lambda>(s', g'). (s', (n, take (length s - length s') s) # g')) (matches r (s, g))"
| "matches Eos (s, g) = (if s = [] \<or> s = [10] then [(s, g)] else [])"

declare matches.simps(4) [simp del]

definition Plus :: "regex \<Rightarrow> regex" where
  "Plus r = Seq r (Star r)"

definition Chr :: "uchar \<Rightarrow> regex" where
  "Chr c = Atom (\<lambda>x. x = c)"

fun Lit :: "ustr \<Rightarrow> regex \<Rightarrow> regex" where
  "Lit [] r = r"
| "Lit (c # cs) r = Seq (Chr c) (Lit cs r)"

text \<open>\<open>re.search\<close>: the leftmost start position with a match, and there the first match.\<close>

fun search :: "regex \<Rightarrow> ustr \<Rightarrow> caps option" where
  "search r [] = (case matches r ([], []) of [] \<Rightarrow> None | x # _ \<Rightarrow> Some (snd x))"
| "search r (c # t) =
     (case matches r (c # t, []) of [] \<Rightarrow> search r t | x # _ \<Rightarrow> Some (snd x))"

definition group :: "caps \<Rightarrow> nat \<Rightarrow> ustr option" where
  "group g n = map_of g n"

section \<open>Price parsing\<close>

datatype error = ValueError | AttributeError | TypeError | KeyError string

record price_info =
  raw_price :: ustr
  numeric_price :: "rat option"
  min_price :: "rat option"
  max_price :: "rat option"
  currency :: ustr
  unit :: ustr
  is_range :: bool

text \<open>The number \<open>\d+(?:,\d+)*(?:\.\d+)?\<close>.\<close>

definition number_re :: regex where
  "number_re =
     Seq (Plus (Atom is_digit))
       (Seq (Star (Seq (Chr 44) (Plus (Atom is_digit))))
            (Opt (Seq (Chr 46) (Plus (Atom is_digit)))))"

text \<open>
  The range pattern, compiled with \<open>re.I\<close>. Its separator \<open>[-to]\<close> is a class of one
  character: a dash, a \<open>t\<close> or an \<open>o\<close>, in either case.
\<close>

definition range_sep :: "uchar \<Rightarrow> bool" where
  "range_sep c \<longleftrightarrow> c = 45 \<or> c = 116 \<or> c = 111 \<or> c = 84 \<or> c = 79"

definition range_re :: regex where
  "range_re =
     Seq (Opt (Chr rupee)) (Seq (Star (Atom is_space)) (Seq (Group 1 number_re)
       (Seq (Star (Atom is_space)) (Seq (Atom range_sep) (Seq (Star (Atom is_space))
         (Seq (Opt (Chr rupee)) (Seq (Star (Atom is_space)) (Group 2 number_re))))))))"

definition price_re :: regex where
  "price_re = Seq (Opt (Chr rupee)) (Seq (Star (Atom is_space)) (Group 1 number_re))"

definition unit_mapping :: "(ustr \<times> ustr) list" where
  "unit_mapping =
     [(u ''pc'', u ''piece''), (u ''pcs'', u ''piece''), (u ''piece'', u ''piece''),
      (u ''kg'', u ''kilogram''), (u ''kilogram'', u ''kilogram''),
      (u ''gram'', u ''gram''), (u ''gm'', u ''gram''),
      (u ''ton'', u ''ton''), (u ''tonne'', u ''ton''),
      (u ''meter'', u ''meter''), (u ''metre'', u ''meter''), (u ''m'', u ''meter''),
      (u ''feet'', u ''feet''), (u ''foot'', u ''feet''), (u ''ft'', u ''feet''),
      (u ''litre'', u ''liter''), (u ''liter'', u ''liter''), (u ''l'', u ''liter''),
      (u ''dozen'', u ''dozen''), (u ''pair'', u ''pair''), (u ''set'', u ''set'')]"

text \<open>\<open>d.get(k, default)\<close>\<close>

definition dict_get :: "('k \<times> 'v) list \<Rightarrow> 'k \<Rightarrow> 'v \<Rightarrow> 'v" where
  "dict_get d k dflt = (case map_of d k of None \<Rightarrow> dflt | Some v \<Rightarrow> v)"

text \<open>The unit patterns \<open>per\s+(\w+)\<close>, \<open>/(\w+)\<close> and \<open>(\w+)\s*$\<close>.\<close>

definition per_unit_re :: regex where
  "per_unit_re = Lit (u ''per'') (Seq (Plus (Atom is_space)) (Group 1 (Plus (Atom is_word))))"

definition slash_unit_re :: regex where
  "slash_unit_re = Seq (Chr 47) (Group 1 (Plus (Atom is_word)))"

definition trailing_word_re :: regex where
  "trailing_word_re = Seq (Group 1 (Plus (Atom is_word))) (Seq (Star (Atom is_space)) Eos)"

definition unit_patterns :: "regex list" where
  "unit_patterns = [per_unit_re, slash_unit_re, trailing_word_re]"

text \<open>
  The loop over the unit patterns: the first pattern found in the text decides. Group 1
  is part of every match of each pattern, so \<open>match.group(1)\<close> is a string there.
\<close>

fun unit_of_patterns :: "regex list \<Rightarrow> ustr \<Rightarrow> ustr" where
  "unit_of_patterns [] price_lower = []"
| "unit_of_patterns (pattern # rest) price_lower =
     (case search pattern price_lower of
        None \<Rightarrow> unit_of_patterns rest price_lower
      | Some m \<Rightarrow> (case group m 1 of None \<Rightarrow> [] | Some t \<Rightarrow> dict_get unit_mapping t t))"

definition extract_price_unit :: "ustr \<Rightarrow> ustr" where
  "extract_price_unit price_text =
     (if price_text = [] then [] else unit_of_patterns unit_patterns (lower price_text))"

text \<open>\<open>float(match.group(n).replace(',', ''))\<close>\<close>

definition group_float :: "caps \<Rightarrow> nat \<Rightarrow> error + rat" where
  "group_float m n =
     (case group m n of
        None \<Rightarrow> Inl AttributeError
      | Some t \<Rightarrow> (case py_float (remove_commas t) of None \<Rightarrow> Inl ValueError | Some x \<Rightarrow> Inr x))"

definition clean_price_text :: "ustr \<Rightarrow> error + price_info" where
  "clean_price_text price_text0 =
     (if price_text0 = [] then
        Inr \<lparr>raw_price = [], numeric_price = None, min_price = None, max_price = None,
             currency = u ''INR'', unit = [], is_range = False\<rparr>
      else
        let price_text = strip price_text0 in
        case search range_re price_text of
          Some range_match \<Rightarrow>
            (case group_float range_match 1 of
               Inl e \<Rightarrow> Inl e
             | Inr mn \<Rightarrow>
                 (case group_float range_match 2 of
                    Inl e \<Rightarrow> Inl e
                  | Inr mx \<Rightarrow>
                      Inr \<lparr>raw_price = price_text, numeric_price = Some ((mn + mx) / 2),
                           min_price = Some mn, max_price = Some mx, currency = u ''INR'',
                           unit = extract_price_unit price_text, is_range = True\<rparr>))
        | None \<Rightarrow>
            (case search price_re price_text of
               None \<Rightarrow>
                 Inr \<lparr>raw_price = price_text, numeric_price = None, min_price = None,
                      max_price = None, currency = u ''INR'',
                      unit = extract_price_unit price_text, is_range = False\<rparr>
             | Some price_match \<Rightarrow>
                 (case group_float price_match 1 of
                    Inl e \<Rightarrow> Inl e
                  | Inr x \<Rightarrow>
                      Inr \<lparr>raw_price = price_text, numeric_price = Some x, min_price = None,
                           max_price = None, currency = u ''INR'',
                           unit = extract_price_unit price_text, is_range = False\<rparr>)))"

section \<open>Location parsing\<close>



text \<open>\<open>s.startswith(p)\<close> and the substring test \<open>k in s\<close>.\<close>

definition startswith :: "ustr \<Rightarrow> ustr \<Rightarrow> bool" where
  "startswith s p \<longleftrightarrow> take (length p) s = p"

fun contains :: "ustr \<Rightarrow> ustr \<Rightarrow> bool" where
  "contains k [] = (k = [])"
| "contains k (c # t) = (startswith (c # t) k \<or> contains k t)"





section \<open>Text similarity\<close>

text \<open>\<open>s.split()\<close>: the maximal runs of characters that are not whitespace. The first
  argument collects the word being read, in reverse.\<close>

fun split_from :: "ustr \<Rightarrow> ustr \<Rightarrow> ustr list" where
  "split_from w [] = (if w = [] then [] else [rev w])"
| "split_from w (c # t) =
     (if is_space c then (if w = [] then split_from [] t else rev w # split_from [] t)
      else split_from (c # w) t)"

definition split :: "ustr \<Rightarrow> ustr list" where
  "split s = split_from [] s"

definition calculate_text_similarity :: "ustr \<Rightarrow> ustr \<Rightarrow> rat" where
  "calculate_text_similarity text1 text2 =
     (if text1 = [] \<or> text2 = [] then 0
      else
        let words1 = set (split (lower text1));
            words2 = set (split (lower text2));
            intersection = card (words1 \<inter> words2);
            union = card (words1 \<union> words2)
        in if union > 0 then of_nat intersection / of_nat union else 0)"

section \<open>Similarity deduplicator\<close>

text \<open>
  A row of the table as \<open>detect_duplicate_products\<close> reads it: the three columns it
  accesses, typed as the scraper and the cleaner leave them. A title or supplier is a
  string or missing (NaN), a price is a number or missing. Rows are labelled by their
  position, the default index of a table. The function returns its table with the
  column \<open>is_duplicate\<close> added; the model returns that column, or the error raised.
\<close>

record product =
  title :: "ustr option"
  supplier_name :: "ustr option"
  numeric_price :: "rat option"

text \<open>\<open>str(row['title'])\<close>: a missing title reads \<open>nan\<close>.\<close>

definition title_str :: "ustr option \<Rightarrow> ustr" where
  "title_str t = (case t of None \<Rightarrow> u ''nan'' | Some s \<Rightarrow> s)"

definition price_similarity :: "rat option \<Rightarrow> rat option \<Rightarrow> rat" where
  "price_similarity p1 p2 =
     (case p1 of
        None \<Rightarrow> 0
      | Some a \<Rightarrow>
          (case p2 of
             None \<Rightarrow> 0
           | Some b \<Rightarrow>
               if a > 0 \<and> b > 0
               then (let price_diff = \<bar>a - b\<bar>; avg_price = (a + b) / 2
                     in max 0 (1 - price_diff / avg_price))
               else 0))"

definition combined_sim :: "product \<Rightarrow> product \<Rightarrow> rat" where
  "combined_sim row1 row2 =
     calculate_text_similarity (title_str (title row1)) (title_str (title row2)) * (8 / 10)
     + price_similarity (numeric_price row1) (numeric_price row2) * (2 / 10)"

text \<open>A loop whose body may raise: the first error ends it.\<close>

fun fold_err :: "('s \<Rightarrow> 'a \<Rightarrow> error + 's) \<Rightarrow> 's \<Rightarrow> 'a list \<Rightarrow> error + 's" where
  "fold_err f s [] = Inr s"
| "fold_err f s (x # xs) = (case f s x of Inl e \<Rightarrow> Inl e | Inr s' \<Rightarrow> fold_err f s' xs)"

text \<open>
  The body of the inner loop, for the rows \<open>i\<close> and \<open>j\<close>. After the flag is set, the log
  line slices both titles, \<open>row['title'][:50]\<close>, which raises \<open>TypeError\<close> on a missing
  title.
\<close>

definition compare_pair ::
  "product list \<Rightarrow> rat \<Rightarrow> nat \<Rightarrow> bool list \<Rightarrow> nat \<Rightarrow> error + bool list" where
  "compare_pair df similarity_threshold i is_duplicate j =
     (if i \<ge> j \<or> is_duplicate ! j then Inr is_duplicate
      else if combined_sim (df ! i) (df ! j) \<ge> similarity_threshold
           then (if title (df ! i) = None \<or> title (df ! j) = None then Inl TypeError
                 else Inr (is_duplicate[j := True]))
           else Inr is_duplicate)"

text \<open>The body of the outer loop, for the row \<open>i\<close> of the supplier's rows.\<close>

definition compare_row ::
  "product list \<Rightarrow> rat \<Rightarrow> nat list \<Rightarrow> bool list \<Rightarrow> nat \<Rightarrow> error + bool list" where
  "compare_row df similarity_threshold supplier_products is_duplicate i =
     (if is_duplicate ! i then Inr is_duplicate
      else fold_err (compare_pair df similarity_threshold i) is_duplicate supplier_products)"

text \<open>\<open>Series.unique()\<close>: the distinct values in the order of their first appearance.\<close>

fun unique_from :: "'a list \<Rightarrow> 'a list \<Rightarrow> 'a list" where
  "unique_from seen [] = []"
| "unique_from seen (x # xs) =
     (if x \<in> set seen then unique_from seen xs else x # unique_from (x # seen) xs)"

definition unique :: "'a list \<Rightarrow> 'a list" where
  "unique xs = unique_from [] xs"

text \<open>The body of the loop over the suppliers.\<close>

definition compare_supplier ::
  "product list \<Rightarrow> rat \<Rightarrow> bool list \<Rightarrow> ustr option \<Rightarrow> error + bool list" where
  "compare_supplier df similarity_threshold is_duplicate supplier =
     (case supplier of
        None \<Rightarrow> Inr is_duplicate
      | Some s \<Rightarrow>
          let supplier_products = filter (\<lambda>i. supplier_name (df ! i) = Some s) [0..<length df]
          in if length supplier_products < 2 then Inr is_duplicate
             else fold_err (compare_row df similarity_threshold supplier_products)
                           is_duplicate supplier_products)"

definition detect_duplicate_products :: "product list \<Rightarrow> rat \<Rightarrow> error + bool list" where
  "detect_duplicate_products df similarity_threshold =
     (if length df < 2 then Inr (replicate (length df) False)
      else fold_err (compare_supplier df similarity_threshold)
                    (replicate (length df) False) (unique (map supplier_name df)))"

section \<open>Tables\<close>

text \<open>
  A pandas table holding Python objects: the names of its columns, and its rows in order,
  each a map from the column names to cells. A cell is a string, a number, a truth value
  or missing; \<open>None\<close> and NaN are the one missing value \<open>NaN\<close>, which pandas treats
  alike in \<open>isna\<close>, \<open>fillna\<close> and \<open>drop_duplicates\<close>.

  Three things are decided by the Python runtime and pandas, not by the source, and are
  parameters of the model: how \<open>str\<close> prints a number, which strings \<open>pd.to_numeric\<close>
  reads as numbers, and the order in which a set of strings is iterated.
\<close>

datatype cell = NaN | Str ustr | Num rat | Flag bool

type_synonym row = "string \<rightharpoonup> cell"

record frame =
  columns :: "string list"
  rows :: "row list"

record runtime =
  str_of_num :: "rat \<Rightarrow> ustr"
  num_of_str :: "ustr \<Rightarrow> rat option"
  set_order :: "ustr list \<Rightarrow> ustr list"

definition cell_of :: "row \<Rightarrow> string \<Rightarrow> cell" where
  "cell_of r col = (case r col of None \<Rightarrow> NaN | Some c \<Rightarrow> c)"

text \<open>\<open>df[col] = df[col].f()\<close>, cell by cell.\<close>

definition map_column :: "string \<Rightarrow> (cell \<Rightarrow> cell) \<Rightarrow> frame \<Rightarrow> frame" where
  "map_column col f df = df\<lparr>rows := map (\<lambda>r. r(col \<mapsto> f (cell_of r col))) (rows df)\<rparr>"

text \<open>\<open>df[col] = ...\<close> computed from each row: a new column goes last.\<close>

definition set_column :: "string \<Rightarrow> (row \<Rightarrow> cell) \<Rightarrow> frame \<Rightarrow> frame" where
  "set_column col f df =
     \<lparr>columns = (if col \<in> set (columns df) then columns df else columns df @ [col]),
      rows = map (\<lambda>r. r(col \<mapsto> f r)) (rows df)\<rparr>"

text \<open>\<open>df.drop(col, axis=1)\<close>\<close>

definition drop_column :: "string \<Rightarrow> frame \<Rightarrow> frame" where
  "drop_column col df =
     \<lparr>columns = filter (\<lambda>c. c \<noteq> col) (columns df),
      rows = map (\<lambda>r. r(col := None)) (rows df)\<rparr>"

text \<open>\<open>str(x)\<close> and \<open>astype(str)\<close> on a cell.\<close>

definition py_str :: "runtime \<Rightarrow> cell \<Rightarrow> ustr" where
  "py_str rt c =
     (case c of
        NaN \<Rightarrow> u ''nan''
      | Str s \<Rightarrow> s
      | Num x \<Rightarrow> str_of_num rt x
      | Flag b \<Rightarrow> if b then u ''True'' else u ''False'')"

text \<open>\<open>.str.lower()\<close>: a cell that is no string becomes missing.\<close>

definition str_lower :: "cell \<Rightarrow> cell" where
  "str_lower c = (case c of Str s \<Rightarrow> Str (lower s) | _ \<Rightarrow> NaN)"

text \<open>\<open>.fillna(v)\<close>\<close>

definition fillna :: "cell \<Rightarrow> cell \<Rightarrow> cell" where
  "fillna v c = (case c of NaN \<Rightarrow> v | _ \<Rightarrow> c)"

section \<open>Cleaning: text columns\<close>

text \<open>\<open>re.sub(r'\s+', ' ', s)\<close>: every maximal run of whitespace becomes one space. The
  flag says that the character before was whitespace.\<close>

fun collapse_from :: "bool \<Rightarrow> ustr \<Rightarrow> ustr" where
  "collapse_from in_run [] = []"
| "collapse_from in_run (c # t) =
     (if is_space c then (if in_run then collapse_from True t else 32 # collapse_from True t)
      else c # collapse_from False t)"

definition collapse_spaces :: "ustr \<Rightarrow> ustr" where
  "collapse_spaces s = collapse_from False s"

definition text_columns :: "string list" where
  "text_columns = [''title'', ''supplier_name'', ''location'', ''description'']"

definition clean_text_cell :: "runtime \<Rightarrow> cell \<Rightarrow> cell" where
  "clean_text_cell rt c =
     (let s = collapse_spaces (strip (py_str rt c))
      in if s = u ''nan'' \<or> s = u ''None'' \<or> s = [] then NaN else Str s)"

definition clean_text_columns :: "runtime \<Rightarrow> frame \<Rightarrow> frame" where
  "clean_text_columns rt df =
     foldl (\<lambda>d col. if col \<in> set (columns d) then map_column col (clean_text_cell rt) d else d)
           df text_columns"

section \<open>Cleaning: prices and units\<close>

text \<open>\<open>pd.to_numeric(..., errors='coerce')\<close>\<close>

definition to_numeric :: "runtime \<Rightarrow> cell \<Rightarrow> cell" where
  "to_numeric rt c =
     (case c of
        NaN \<Rightarrow> NaN
      | Num x \<Rightarrow> Num x
      | Flag b \<Rightarrow> Num (if b then 1 else 0)
      | Str s \<Rightarrow> (case num_of_str rt s of None \<Rightarrow> NaN | Some x \<Rightarrow> Num x))"

text \<open>\<open>Series.quantile(q)\<close>: linear interpolation between the two nearest of the sorted
  present values; missing when there is no value.\<close>

definition quantile :: "rat \<Rightarrow> rat list \<Rightarrow> rat option" where
  "quantile q xs =
     (if xs = [] then None
      else
        let v = sort xs;
            h = of_nat (length v - 1) * q;
            lo = nat \<lfloor>h\<rfloor>;
            hi = min (lo + 1) (length v - 1)
        in Some (v ! lo + (h - of_nat lo) * (v ! hi - v ! lo)))"

definition present_numbers :: "string \<Rightarrow> frame \<Rightarrow> rat list" where
  "present_numbers col df =
     concat (map (\<lambda>r. case cell_of r col of Num x \<Rightarrow> [x] | _ \<Rightarrow> []) (rows df))"

text \<open>A comparison with a missing value is false.\<close>

definition price_outlier :: "rat option \<Rightarrow> rat option \<Rightarrow> cell \<Rightarrow> cell" where
  "price_outlier price_q1 price_q99 c =
     (case c of
        Num x \<Rightarrow>
          Flag ((case price_q1 of None \<Rightarrow> False | Some a \<Rightarrow> x < a) \<or>
                (case price_q99 of None \<Rightarrow> False | Some b \<Rightarrow> x > b))
      | _ \<Rightarrow> Flag False)"

text \<open>The dictionary \<open>unit_mapping\<close> of \<open>standardize_prices\<close>.\<close>

definition cleaner_unit_mapping :: "(ustr \<times> ustr) list" where
  "cleaner_unit_mapping =
     [(u ''piece'', u ''piece''), (u ''pieces'', u ''piece''), (u ''pc'', u ''piece''),
      (u ''pcs'', u ''piece''), (u ''unit'', u ''piece''),
      (u ''kg'', u ''kilogram''), (u ''kilogram'', u ''kilogram''),
      (u ''gram'', u ''gram''),
      (u ''ton'', u ''ton''), (u ''tonne'', u ''ton''),
      (u ''meter'', u ''meter''), (u ''metre'', u ''meter''), (u ''m'', u ''meter''),
      (u ''feet'', u ''feet''), (u ''foot'', u ''feet''),
      (u ''inch'', u ''inch''),
      (u ''litre'', u ''liter''), (u ''liter'', u ''liter''), (u ''l'', u ''liter'')]"

text \<open>\<open>.map(unit_mapping)\<close>: a cell that is no key of the dictionary becomes missing.\<close>

definition map_unit :: "cell \<Rightarrow> cell" where
  "map_unit c =
     (case c of
        Str s \<Rightarrow> (case map_of cleaner_unit_mapping s of None \<Rightarrow> NaN | Some v \<Rightarrow> Str v)
      | _ \<Rightarrow> NaN)"

text \<open>The cell of \<open>standardized_unit\<close> for a cell of \<open>price_unit\<close> as the input has it:
  \<open>df['price_unit'].str.lower()\<close>, then \<open>.map(unit_mapping).fillna(df['price_unit'])\<close>.\<close>

definition standardized_unit :: "cell \<Rightarrow> cell" where
  "standardized_unit c = (let price_unit = str_lower c in fillna price_unit (map_unit price_unit))"

definition standardize_prices :: "runtime \<Rightarrow> frame \<Rightarrow> frame" where
  "standardize_prices rt df =
     (if ''numeric_price'' \<notin> set (columns df) then df
      else
        let df1 = map_column ''numeric_price'' (to_numeric rt) df;
            price_q1 = quantile (1 / 100) (present_numbers ''numeric_price'' df1);
            price_q99 = quantile (99 / 100) (present_numbers ''numeric_price'' df1);
            df2 = set_column ''price_outlier''
                    (\<lambda>r. price_outlier price_q1 price_q99 (cell_of r ''numeric_price'')) df1
        in if ''price_unit'' \<in> set (columns df2) then
             set_column ''standardized_unit''
               (\<lambda>r. fillna (cell_of r ''price_unit'') (map_unit (cell_of r ''price_unit'')))
               (map_column ''price_unit'' str_lower df2)
           else df2)"

section \<open>Cleaning: locations\<close>

text \<open>The set \<open>indian_states\<close> of \<open>standardize_locations\<close>, as it is written. The loop
  visits it in the order the runtime gives.\<close>

definition cleaner_indian_states :: "ustr list" where
  "cleaner_indian_states =
     [u ''maharashtra'', u ''uttar pradesh'', u ''up'', u ''karnataka'', u ''tamil nadu'', u ''tn'',
      u ''gujarat'', u ''rajasthan'', u ''west bengal'', u ''wb'', u ''madhya pradesh'', u ''mp'',
      u ''andhra pradesh'', u ''ap'', u ''odisha'', u ''orissa'', u ''telangana'', u ''kerala'',
      u ''punjab'', u ''haryana'', u ''jharkhand'', u ''bihar'', u ''chhattisgarh'', u ''uttarakhand'',
      u ''himachal pradesh'', u ''hp'', u ''assam'', u ''jammu and kashmir'', u ''j&k'',
      u ''delhi'', u ''new delhi'', u ''mumbai'', u ''bangalore'', u ''chennai'', u ''kolkata'',
      u ''hyderabad'', u ''pune'', u ''ahmedabad'', u ''surat'', u ''jaipur'', u ''lucknow'',
      u ''kanpur'', u ''nagpur'', u ''visakhapatnam'', u ''indore'', u ''thane'', u ''bhopal'']"

text \<open>\<open>s.title()\<close> on ASCII: a letter after a letter is lowered, any other letter is
  raised. The flag says that the character before was a letter.\<close>

definition is_alpha :: "uchar \<Rightarrow> bool" where
  "is_alpha c \<longleftrightarrow> (65 \<le> c \<and> c \<le> 90) \<or> (97 \<le> c \<and> c \<le> 122)"

definition upper_chr :: "uchar \<Rightarrow> uchar" where
  "upper_chr c = (if 97 \<le> c \<and> c \<le> 122 then c - 32 else c)"

fun title_from :: "bool \<Rightarrow> ustr \<Rightarrow> ustr" where
  "title_from after_letter [] = []"
| "title_from after_letter (c # t) =
     (if is_alpha c then (if after_letter then lower_chr c else upper_chr c) # title_from True t
      else c # title_from False t)"

definition title_case :: "ustr \<Rightarrow> ustr" where
  "title_case s = title_from False s"

fun first_state_in :: "ustr list \<Rightarrow> ustr \<Rightarrow> cell" where
  "first_state_in [] location_lower = NaN"
| "first_state_in (st # rest) location_lower =
     (if contains st location_lower then Str (title_case st)
      else first_state_in rest location_lower)"

definition extract_state :: "runtime \<Rightarrow> cell \<Rightarrow> cell" where
  "extract_state rt location_text =
     (if location_text = NaN then NaN
      else first_state_in (set_order rt cleaner_indian_states) (lower (py_str rt location_text)))"

definition standardize_locations :: "runtime \<Rightarrow> frame \<Rightarrow> frame" where
  "standardize_locations rt df =
     (if ''location'' \<notin> set (columns df) then df
      else set_column ''extracted_state'' (\<lambda>r. extract_state rt (cell_of r ''location'')) df)"

section \<open>Cleaning: exact duplicates\<close>

text \<open>String concatenation of two cells of a column of strings: missing when either is.\<close>

definition str_add :: "cell \<Rightarrow> cell \<Rightarrow> cell" where
  "str_add a b = (case a of Str x \<Rightarrow> (case b of Str y \<Rightarrow> Str (x @ y) | _ \<Rightarrow> NaN) | _ \<Rightarrow> NaN)"

definition dedup_key :: "row \<Rightarrow> cell" where
  "dedup_key r =
     str_add (str_add (str_lower (fillna (Str []) (cell_of r ''title''))) (Str (u ''_'')))
             (str_lower (fillna (Str []) (cell_of r ''supplier_name'')))"


text \<open>\<open>drop_duplicates(subset=k, keep='first')\<close>: a row is kept when no row before it has
  its key.\<close>

fun drop_duplicates_from :: "('a \<Rightarrow> 'k) \<Rightarrow> 'k list \<Rightarrow> 'a list \<Rightarrow> 'a list" where
  "drop_duplicates_from key seen [] = []"
| "drop_duplicates_from key seen (x # xs) =
     (if key x \<in> set seen then drop_duplicates_from key seen xs
      else x # drop_duplicates_from key (key x # seen) xs)"

definition drop_duplicates :: "('a \<Rightarrow> 'k) \<Rightarrow> 'a list \<Rightarrow> 'a list" where
  "drop_duplicates key xs = drop_duplicates_from key [] xs"

text \<open>\<open>df['title']\<close> and \<open>df['supplier_name']\<close> raise \<open>KeyError\<close> on a table without the
  column; the title is read first.\<close>

definition remove_duplicates :: "frame \<Rightarrow> error + frame" where
  "remove_duplicates df =
     (if ''title'' \<notin> set (columns df) then Inl (KeyError ''title'')
      else if ''supplier_name'' \<notin> set (columns df) then Inl (KeyError ''supplier_name'')
      else
        let keyed = set_column ''dedup_key'' dedup_key df;
            df_dedup = keyed\<lparr>rows := drop_duplicates (\<lambda>r. cell_of r ''dedup_key'') (rows keyed)\<rparr>
        in Inr (drop_column ''dedup_key'' df_dedup))"

text \<open>The cleaning pipeline. Its second result, the quality report, is computed from the
  cleaned table after the four stages and is not part of the model.\<close>

definition clean_dataset :: "runtime \<Rightarrow> frame \<Rightarrow> error + frame" where
  "clean_dataset rt df =
     remove_duplicates (standardize_locations rt (standardize_prices rt (clean_text_columns rt df)))"

section \<open>Listing links\<close>

text \<open>
  The document as \<open>get_product_urls\<close> reads it: for each selector the links that
  \<open>soup.select\<close> finds, each with its \<open>href\<close> or none. \<open>urljoin\<close> is the library's. The
  result \<open>list(set(urls))\<close> has no order of its own and is modelled as a set.
\<close>

definition link_selectors :: "string list" where
  "link_selectors = [''.prd a'', ''.lst a'', ''.product-item a'', ''a[href*=\"/proddetail/\"]'']"

definition base_url :: ustr where
  "base_url = u ''https://www.indiamart.com''"

definition link_url :: "(ustr \<Rightarrow> ustr \<Rightarrow> ustr) \<Rightarrow> ustr option \<Rightarrow> ustr list" where
  "link_url urljoin href =
     (case href of
        None \<Rightarrow> []
      | Some h \<Rightarrow>
          if h = [] then []
          else if \<not> startswith h (u ''http'') then [urljoin base_url h]
          else [h])"

definition get_product_urls ::
  "(ustr \<Rightarrow> ustr \<Rightarrow> ustr) \<Rightarrow> (string \<Rightarrow> ustr option list) \<Rightarrow> ustr set" where
  "get_product_urls urljoin soup_select =
     set (concat (map (\<lambda>selector. concat (map (link_url urljoin) (soup_select selector)))
                      link_selectors))"

section \<open>Sample inputs\<close>




definition two_layout_page :: "string \<Rightarrow> ustr option list" where
  "two_layout_page selector =
     (if selector = ''.prd a'' then [Some (u ''https://www.indiamart.com/proddetail/1.html'')]
      else if selector = ''.lst a'' then [Some (u ''/proddetail/2.html''), None]
      else [])"

definition listing_without_supplier :: frame where
  "listing_without_supplier =
     \<lparr>columns = [''title'', ''location'', ''numeric_price''],
      rows = [[''title'' \<mapsto> Str (u ''Steel Pipe''), ''location'' \<mapsto> Str (u ''Pune''),
               ''numeric_price'' \<mapsto> Num 100]]\<rparr>"



section \<open>The flags of the similarity deduplicator\<close>

text \<open>For the proofs: the loops of \<open>detect_duplicate_products\<close> without the log line, which
  compute the flags that the function returns whenever it returns.\<close>

definition pair_flags :: "product list \<Rightarrow> rat \<Rightarrow> nat \<Rightarrow> bool list \<Rightarrow> nat \<Rightarrow> bool list" where
  "pair_flags df thr i f j =
     (if i \<ge> j \<or> f ! j then f
      else if combined_sim (df ! i) (df ! j) \<ge> thr then f[j := True] else f)"




section \<open>Words of a pattern\<close>

text \<open>
  For the proofs: the words a pattern accepts, the groups it contains and the groups it
  sets in every match. The matcher is sound for them: what it consumes is a word of the
  pattern, and what it captures is a word of the group.
\<close>

inductive accepts :: "regex \<Rightarrow> ustr \<Rightarrow> bool" where
  acc_Atom: "p c \<Longrightarrow> accepts (Atom p) [c]"
| acc_Seq: "accepts a x \<Longrightarrow> accepts b y \<Longrightarrow> accepts (Seq a b) (x @ y)"
| acc_Opt_none: "accepts (Opt r) []"
| acc_Opt_some: "accepts r x \<Longrightarrow> accepts (Opt r) x"
| acc_Star_none: "accepts (Star r) []"
| acc_Star_more: "accepts r x \<Longrightarrow> accepts (Star r) y \<Longrightarrow> accepts (Star r) (x @ y)"
| acc_Group: "accepts r x \<Longrightarrow> accepts (Group n r) x"
| acc_Eos: "accepts Eos []"

fun groups_of :: "regex \<Rightarrow> (nat \<times> regex) list" where
  "groups_of (Atom p) = []"
| "groups_of (Seq a b) = groups_of a @ groups_of b"
| "groups_of (Opt r) = groups_of r"
| "groups_of (Star r) = groups_of r"
| "groups_of (Group n r) = (n, r) # groups_of r"
| "groups_of Eos = []"


text \<open>A rest of the text before which a number ends.\<close>

definition stops :: "ustr \<Rightarrow> bool" where
  "stops rest \<longleftrightarrow> rest = [] \<or> (\<not> is_digit (hd rest) \<and> hd rest \<noteq> 44 \<and> hd rest \<noteq> 46)"

section \<open>The matcher is sound\<close>


inductive_cases accepts_AtomE: "accepts (Atom p) w"
inductive_cases accepts_SeqE: "accepts (Seq a b) w"
inductive_cases accepts_OptE: "accepts (Opt r) w"
inductive_cases accepts_GroupE: "accepts (Group n r) w"
inductive_cases accepts_EosE: "accepts Eos w"








lemma accepts_Star_Atom:
  "accepts r w \<Longrightarrow> r = Star (Atom p) \<Longrightarrow> list_all p w"
  by (induction rule: accepts.induct) (auto elim: accepts_AtomE)

lemma accepts_Plus_Atom:
  assumes "accepts (Plus (Atom p)) w"
  shows "w \<noteq> [] \<and> list_all p w"
proof -
  from assms obtain x y where "w = x @ y" "accepts (Atom p) x" "accepts (Star (Atom p)) y"
    unfolding Plus_def by (auto elim: accepts_SeqE)
  then show ?thesis using accepts_Star_Atom[of "Star (Atom p)" y p]
    by (auto elim: accepts_AtomE)
qed

lemma remove_commas_digits: "list_all is_digit d \<Longrightarrow> remove_commas d = d"
  unfolding remove_commas_def by (rule filter_True) (fastforce simp: list_all_iff is_digit_def)

lemma remove_commas_Cons [simp]:
  "remove_commas (c # s) = (if c = 44 then remove_commas s else c # remove_commas s)"
  by (simp add: remove_commas_def)

lemma remove_commas_append [simp]:
  "remove_commas (a @ b) = remove_commas a @ remove_commas b"
  by (simp add: remove_commas_def)

lemma accepts_comma_groups:
  "accepts r w \<Longrightarrow> r = Star (Seq (Chr 44) (Plus (Atom is_digit))) \<Longrightarrow>
   list_all is_digit (remove_commas w)"
proof (induction rule: accepts.induct)
  case (acc_Star_more r x y)
  then have "accepts (Seq (Chr 44) (Plus (Atom is_digit))) x" by simp
  then obtain a b where "x = a @ b" "accepts (Chr 44) a" "accepts (Plus (Atom is_digit)) b"
    by (auto elim: accepts_SeqE)
  then have "a = [44]" "list_all is_digit b"
    using accepts_Plus_Atom[of is_digit b] by (auto simp: Chr_def elim!: accepts_AtomE)
  with \<open>x = a @ b\<close> have "remove_commas x = b"
    by (simp add: remove_commas_digits)
  with \<open>list_all is_digit b\<close> acc_Star_more show ?case by simp
qed (simp_all add: remove_commas_def)

lemma py_float_literal:
  assumes "d \<noteq> []" "list_all is_digit d"
    and "f = [] \<or> (\<exists>fp. f = 46 # fp \<and> fp \<noteq> [] \<and> list_all is_digit fp)"
  shows "\<exists>x. py_float (d @ f) = Some x"
proof -
  from assms(3) have "takeWhile is_digit f = []"
    by (auto simp: is_digit_def)
  with assms(2) have tw: "takeWhile is_digit (d @ f) = d"
    by (simp add: takeWhile_append2 list_all_iff)
  from assms(3) have "dropWhile is_digit f = f"
    by (auto simp: is_digit_def)
  with assms(2) have dw: "dropWhile is_digit (d @ f) = f"
    by (simp add: dropWhile_append2 list_all_iff)
  from assms(1,3) show ?thesis
    by (auto simp: py_float_def tw dw Let_def)
qed

lemma number_re_float:
  assumes "accepts number_re w"
  shows "\<exists>x. py_float (remove_commas w) = Some x"
proof -
  from assms obtain a b c where w: "w = a @ b @ c"
    and a: "accepts (Plus (Atom is_digit)) a"
    and b: "accepts (Star (Seq (Chr 44) (Plus (Atom is_digit)))) b"
    and c: "accepts (Opt (Seq (Chr 46) (Plus (Atom is_digit)))) c"
    unfolding number_re_def by (auto elim!: accepts_SeqE)
  from a have a': "a \<noteq> []" "list_all is_digit a" using accepts_Plus_Atom by auto
  then have ra: "remove_commas a = a" by (simp add: remove_commas_digits)
  from b have b': "list_all is_digit (remove_commas b)" using accepts_comma_groups by simp
  from c have c': "c = [] \<or> (\<exists>fp. c = 46 # fp \<and> fp \<noteq> [] \<and> list_all is_digit fp)"
    using accepts_Plus_Atom[of is_digit]
    by (auto simp: Chr_def elim!: accepts_OptE accepts_SeqE accepts_AtomE)
  then have rc: "remove_commas c = c"
    by (auto simp: remove_commas_digits)
  have "remove_commas w = (a @ remove_commas b) @ c"
    using w ra rc by simp
  moreover have "\<exists>x. py_float ((a @ remove_commas b) @ c) = Some x"
    using a' b' c' by (intro py_float_literal) auto
  ultimately show ?thesis by simp
qed


lemma groups_of_Plus [simp]: "groups_of (Plus r) = groups_of r @ groups_of r"
  by (simp add: Plus_def)

lemma groups_of_number_re [simp]: "groups_of number_re = []"
  by (simp add: number_re_def Chr_def)



section \<open>Greedy matching of a class\<close>

lemma matches_Star_Nil [simp]: "matches (Star r) ([], g) = [([], g)]"
proof -
  have "\<And>x. x \<in> set (matches r ([], g)) \<Longrightarrow>
          (case x of (s', g') \<Rightarrow> if length s' < length ([]::ustr) then matches (Star r) (s', g') else []) = []"
    by auto
  then have "concat (map (\<lambda>(s', g'). if length s' < length ([]::ustr) then matches (Star r) (s', g') else [])
                 (matches r ([], g))) = []"
    by (simp add: case_prod_unfold)
  then show ?thesis by (subst matches.simps(4)) simp
qed

lemma matches_Star_Atom_Cons:
  "matches (Star (Atom p)) (c # t, g) =
     (if p c then matches (Star (Atom p)) (t, g) @ [(c # t, g)] else [(c # t, g)])"
  by (subst matches.simps(4)) simp

lemma matches_Star_Atom_hd:
  "\<exists>rest. matches (Star (Atom p)) (s, g) = (dropWhile p s, g) # rest"
  by (induction s) (auto simp: matches_Star_Atom_Cons)

lemma matches_Plus_Atom_Nil [simp]: "matches (Plus (Atom p)) ([], g) = []"
  by (simp add: Plus_def)

lemma matches_Plus_Atom_Cons:
  "matches (Plus (Atom p)) (c # t, g) = (if p c then matches (Star (Atom p)) (t, g) else [])"
  by (simp add: Plus_def)

























section \<open>The range pattern on a dash\<close>

text \<open>
  Greedy matching takes the whole of a number that is followed by the end of the text or
  by a character that cannot continue it. So for two words of the number pattern joined
  by a dash, with or without whitespace around it and rupee signs before them, the range
  pattern matches at the start and captures the two numbers.
\<close>

lemma matches_Seq_hd:
  "matches r1 x = y # ys \<Longrightarrow> matches r2 y = z # zs \<Longrightarrow>
   \<exists>more. matches (Seq r1 r2) x = z # more"
  by simp

lemma matches_Opt_hd:
  "matches r x = y # ys \<Longrightarrow> \<exists>more. matches (Opt r) x = y # more"
  by simp

lemma matches_Group_hd:
  "matches r (w @ rest, g) = (rest, g') # ys \<Longrightarrow>
   \<exists>more. matches (Group n r) (w @ rest, g) = (rest, (n, w) # g') # more"
  by simp

lemma matches_Chr_miss:
  "t = [] \<or> hd t \<noteq> c \<Longrightarrow> matches (Seq (Chr c) r) (t, g) = []"
  by (cases t) (auto simp: Chr_def)

lemma matches_digits_hd:
  assumes "d \<noteq> []" "list_all is_digit d" "rest = [] \<or> \<not> is_digit (hd rest)"
  shows "\<exists>more. matches (Plus (Atom is_digit)) (d @ rest, g) = (rest, g) # more"
proof -
  from assms(1) obtain c t where d: "d = c # t" by (cases d) auto
  from assms(2,3) d have "dropWhile is_digit (t @ rest) = rest"
    by (cases rest) (auto simp: list_all_iff dropWhile_append2 dropWhile_append)
  with matches_Star_Atom_hd[of is_digit "t @ rest" g] assms(2) d show ?thesis
    by (simp add: matches_Plus_Atom_Cons)
qed

lemma matches_comma_groups_hd:
  assumes "\<forall>d \<in> set gs. d \<noteq> [] \<and> list_all is_digit d"
    and "rest = [] \<or> (\<not> is_digit (hd rest) \<and> hd rest \<noteq> 44)"
  shows "\<exists>more. matches (Star (Seq (Chr 44) (Plus (Atom is_digit))))
            (concat (map (\<lambda>d. 44 # d) gs) @ rest, g) = (rest, g) # more"
  using assms(1)
proof (induction gs)
  case Nil
  from assms(2) have "matches (Seq (Chr 44) (Plus (Atom is_digit))) (rest, g) = []"
    by (intro matches_Chr_miss) auto
  then show ?case by (subst matches.simps(4)) (simp only: list.map concat.simps append_Nil, simp)
next
  case (Cons d gs)
  let ?X = "Seq (Chr 44) (Plus (Atom is_digit))"
  let ?tail = "concat (map (\<lambda>d. 44 # d) gs) @ rest"
  from Cons.prems have d: "d \<noteq> []" "list_all is_digit d"
    and gs: "\<forall>d \<in> set gs. d \<noteq> [] \<and> list_all is_digit d" by simp_all
  have st: "?tail = [] \<or> \<not> is_digit (hd ?tail)"
    using assms(2) by (cases gs) (auto simp: is_digit_def)
  from matches_digits_hd[OF d st, of g] obtain m1
    where m1: "matches (Plus (Atom is_digit)) (d @ ?tail, g) = (?tail, g) # m1" by blast
  then have x: "matches ?X (44 # d @ ?tail, g) = (?tail, g) # m1" by (simp add: Chr_def)
  from Cons.IH[OF gs] obtain m2 where m2: "matches (Star ?X) (?tail, g) = (rest, g) # m2"
    by blast
  have "matches (Star ?X) (44 # d @ ?tail, g) =
      concat (map (\<lambda>(s', g'). if length s' < length (44 # d @ ?tail)
                               then matches (Star ?X) (s', g') else [])
                  ((?tail, g) # m1)) @ [(44 # d @ ?tail, g)]"
    by (subst matches.simps(4)) (simp only: x)
  with m2 show ?case by simp
qed

lemma matches_fraction_hd:
  assumes "f = [] \<or> (\<exists>fd. f = 46 # fd \<and> fd \<noteq> [] \<and> list_all is_digit fd)"
    and "rest = [] \<or> (\<not> is_digit (hd rest) \<and> hd rest \<noteq> 46)"
  shows "\<exists>more. matches (Opt (Seq (Chr 46) (Plus (Atom is_digit)))) (f @ rest, g) = (rest, g) # more"
proof (cases "f = []")
  case True
  from assms(2) have "matches (Seq (Chr 46) (Plus (Atom is_digit))) (rest, g) = []"
    by (intro matches_Chr_miss) auto
  with True show ?thesis by (simp only: matches.simps(3) append_Nil) simp
next
  case False
  with assms(1) obtain fd where f: "f = 46 # fd" "fd \<noteq> []" "list_all is_digit fd" by blast
  from assms(2) have "rest = [] \<or> \<not> is_digit (hd rest)" by auto
  from matches_digits_hd[OF f(2,3) this, of g] obtain m
    where "matches (Plus (Atom is_digit)) (fd @ rest, g) = (rest, g) # m" by blast
  with f(1) show ?thesis by (simp add: Chr_def)
qed

lemma accepts_comma_groups_shape:
  "accepts r w \<Longrightarrow> r = Star (Seq (Chr 44) (Plus (Atom is_digit))) \<Longrightarrow>
   \<exists>gs. w = concat (map (\<lambda>d. 44 # d) gs) \<and> (\<forall>d \<in> set gs. d \<noteq> [] \<and> list_all is_digit d)"
proof (induction rule: accepts.induct)
  case (acc_Star_none r)
  show ?case by (rule exI[of _ "[]"]) simp
next
  case (acc_Star_more r x y)
  then have "accepts (Seq (Chr 44) (Plus (Atom is_digit))) x" by simp
  then obtain a b where "x = a @ b" "accepts (Chr 44) a" "accepts (Plus (Atom is_digit)) b"
    by (auto elim: accepts_SeqE)
  then have x: "x = 44 # b" "b \<noteq> []" "list_all is_digit b"
    using accepts_Plus_Atom[of is_digit b] by (auto simp: Chr_def elim!: accepts_AtomE)
  from acc_Star_more obtain gs where "y = concat (map (\<lambda>d. 44 # d) gs)"
    "\<forall>d \<in> set gs. d \<noteq> [] \<and> list_all is_digit d" by auto
  with x show ?case by (intro exI[of _ "b # gs"]) simp
qed simp_all

lemma number_re_shape:
  assumes "accepts number_re w"
  shows "\<exists>d gs f. w = d @ concat (map (\<lambda>d. 44 # d) gs) @ f \<and> d \<noteq> [] \<and> list_all is_digit d \<and>
     (\<forall>d \<in> set gs. d \<noteq> [] \<and> list_all is_digit d) \<and>
     (f = [] \<or> (\<exists>fd. f = 46 # fd \<and> fd \<noteq> [] \<and> list_all is_digit fd))"
proof -
  from assms obtain a b c where w: "w = a @ b @ c"
    and a: "accepts (Plus (Atom is_digit)) a"
    and b: "accepts (Star (Seq (Chr 44) (Plus (Atom is_digit)))) b"
    and c: "accepts (Opt (Seq (Chr 46) (Plus (Atom is_digit)))) c"
    unfolding number_re_def by (auto elim!: accepts_SeqE)
  from a have a': "a \<noteq> []" "list_all is_digit a" using accepts_Plus_Atom by auto
  from accepts_comma_groups_shape[OF b refl] obtain gs
    where gs: "b = concat (map (\<lambda>d. 44 # d) gs)" "\<forall>d \<in> set gs. d \<noteq> [] \<and> list_all is_digit d"
    by blast
  from c have c': "c = [] \<or> (\<exists>fd. c = 46 # fd \<and> fd \<noteq> [] \<and> list_all is_digit fd)"
    using accepts_Plus_Atom[of is_digit]
    by (auto simp: Chr_def elim!: accepts_OptE accepts_SeqE accepts_AtomE)
  from w a' gs c' show ?thesis by blast
qed

lemma matches_number_re_hd:
  assumes "accepts number_re w" "stops rest"
  shows "\<exists>more. matches (Group n number_re) (w @ rest, g) = (rest, (n, w) # g) # more"
proof -
  from number_re_shape[OF assms(1)] obtain d gs f
    where w: "w = d @ concat (map (\<lambda>d. 44 # d) gs) @ f"
      and d: "d \<noteq> []" "list_all is_digit d"
      and gs: "\<forall>d \<in> set gs. d \<noteq> [] \<and> list_all is_digit d"
      and f: "f = [] \<or> (\<exists>fd. f = 46 # fd \<and> fd \<noteq> [] \<and> list_all is_digit fd)"
    by blast
  let ?r2 = "concat (map (\<lambda>d. 44 # d) gs) @ f @ rest"
  let ?r3 = "f @ rest"
  have s3: "?r3 = [] \<or> (\<not> is_digit (hd ?r3) \<and> hd ?r3 \<noteq> 44)"
    using f assms(2) by (auto simp: stops_def is_digit_def)
  have s2: "?r2 = [] \<or> \<not> is_digit (hd ?r2)"
    using s3 by (cases gs) (auto simp: is_digit_def)
  have s4: "rest = [] \<or> (\<not> is_digit (hd rest) \<and> hd rest \<noteq> 46)"
    using assms(2) by (auto simp: stops_def)
  from matches_digits_hd[OF d s2, of g] obtain m1
    where m1: "matches (Plus (Atom is_digit)) (d @ ?r2, g) = (?r2, g) # m1" by blast
  from matches_comma_groups_hd[OF gs s3, of g] obtain m2
    where m2: "matches (Star (Seq (Chr 44) (Plus (Atom is_digit)))) (?r2, g) = (?r3, g) # m2"
    by auto
  from matches_fraction_hd[OF f s4, of g] obtain m3
    where m3: "matches (Opt (Seq (Chr 46) (Plus (Atom is_digit)))) (?r3, g) = (rest, g) # m3"
    by blast
  from matches_Seq_hd[OF m2 m3] obtain m23 where
    "matches (Seq (Star (Seq (Chr 44) (Plus (Atom is_digit))))
                  (Opt (Seq (Chr 46) (Plus (Atom is_digit))))) (?r2, g) = (rest, g) # m23"
    by blast
  from matches_Seq_hd[OF m1 this] obtain m where
    "matches number_re (d @ ?r2, g) = (rest, g) # m" unfolding number_re_def by blast
  then have "matches number_re (w @ rest, g) = (rest, g) # m" by (simp add: w)
  from matches_Group_hd[OF this] show ?thesis .
qed


lemma number_re_chars:
  assumes "accepts number_re w"
  shows "w \<noteq> [] \<and> is_digit (hd w) \<and> (\<forall>c \<in> set w. is_digit c \<or> c = 44 \<or> c = 46)"
proof -
  from number_re_shape[OF assms] obtain d gs f
    where w: "w = d @ concat (map (\<lambda>d. 44 # d) gs) @ f"
      and d: "d \<noteq> []" "list_all is_digit d"
      and gs: "\<forall>d \<in> set gs. d \<noteq> [] \<and> list_all is_digit d"
      and f: "f = [] \<or> (\<exists>fd. f = 46 # fd \<and> fd \<noteq> [] \<and> list_all is_digit fd)"
    by blast
  from d have "is_digit (hd d)" by (cases d) auto
  with d w have h: "w \<noteq> []" "is_digit (hd w)" by auto
  have "\<forall>c \<in> set w. is_digit c \<or> c = 44 \<or> c = 46"
    using w d gs f by (auto simp: list_all_iff)
  with h show ?thesis by blast
qed

lemma strip_id:
  assumes "s \<noteq> []" "\<not> is_space (hd s)" "\<not> is_space (last s)"
  shows "strip s = s"
proof -
  from assms(1,2) have a: "dropWhile is_space s = s" by (cases s) auto
  from assms(1,3) have "dropWhile is_space (rev s) = rev s"
    by (cases "rev s") (auto simp: hd_rev[symmetric])
  with a show ?thesis by (simp add: strip_def)
qed

lemma matches_Opt_rupee_hd:
  assumes "cur = [] \<or> cur = [rupee]" "t \<noteq> []" "hd t \<noteq> rupee"
  shows "\<exists>more. matches (Opt (Chr rupee)) (cur @ t, g) = (t, g) # more"
  using assms by (cases t) (auto simp: Chr_def)

lemma matches_spaces_hd:
  assumes "list_all is_space ws" "t = [] \<or> \<not> is_space (hd t)"
  shows "\<exists>more. matches (Star (Atom is_space)) (ws @ t, g) = (t, g) # more"
proof -
  from assms have "dropWhile is_space (ws @ t) = t"
    by (cases t) (auto simp: list_all_iff dropWhile_append2 dropWhile_append)
  with matches_Star_Atom_hd[of is_space "ws @ t" g] show ?thesis by simp
qed

lemma matches_range_re_hd:
  assumes a: "accepts number_re a" and b: "accepts number_re b"
    and c1: "cur1 = [] \<or> cur1 = [rupee]" and c2: "cur2 = [] \<or> cur2 = [rupee]"
    and w1: "list_all is_space ws1" and w2: "list_all is_space ws2"
  shows "\<exists>more. matches range_re (cur1 @ a @ ws1 @ 45 # ws2 @ cur2 @ b, []) =
           ([], [(2, b), (1, a)]) # more"
proof -
  let ?T6 = "b" let ?T5 = "cur2 @ b" let ?T4 = "ws2 @ ?T5" let ?T3 = "45 # ?T4"
  let ?T2 = "ws1 @ ?T3" let ?T1 = "a @ ?T2"
  let ?g = "[(1, a)]"
  note ca = number_re_chars[OF a] and cb = number_re_chars[OF b]
  have dig: "is_digit c \<Longrightarrow> \<not> is_space c \<and> c \<noteq> rupee" for c
    by (auto simp: is_digit_def is_space_def rupee_def)
  have rs: "\<not> is_space rupee" by (simp add: is_space_def rupee_def)
  have sp: "is_space c \<Longrightarrow> \<not> is_digit c \<and> c \<noteq> 44 \<and> c \<noteq> 46" for c
    by (auto simp: is_digit_def is_space_def)
  have h9: "\<exists>m. matches (Group 2 number_re) (?T6, ?g) = ([], (2, b) # ?g) # m"
    using matches_number_re_hd[OF b, of "[]" 2 ?g] by (simp add: stops_def)
  have h8: "\<exists>m. matches (Star (Atom is_space)) (?T6, ?g) = (?T6, ?g) # m"
    using matches_spaces_hd[of "[]" ?T6 ?g] cb dig by simp
  have h7: "\<exists>m. matches (Opt (Chr rupee)) (?T5, ?g) = (?T6, ?g) # m"
    using matches_Opt_rupee_hd[OF c2, of ?T6 ?g] cb dig by blast
  have t5: "\<not> is_space (hd ?T5)" using c2 cb dig rs by (cases b) auto
  have h6: "\<exists>m. matches (Star (Atom is_space)) (?T4, ?g) = (?T5, ?g) # m"
    using matches_spaces_hd[OF w2, of ?T5 ?g] t5 by simp
  have h5: "matches (Atom range_sep) (?T3, ?g) = [(?T4, ?g)]" by (simp add: range_sep_def)
  have h4: "\<exists>m. matches (Star (Atom is_space)) (?T2, ?g) = (?T3, ?g) # m"
    using matches_spaces_hd[OF w1, of ?T3 ?g] by (simp add: is_space_def)
  have st: "stops ?T2" using w1 sp by (cases ws1) (auto simp: stops_def is_digit_def)
  have h3: "\<exists>m. matches (Group 1 number_re) (?T1, []) = (?T2, ?g) # m"
    using matches_number_re_hd[OF a st, of 1 "[]"] by simp
  have h2: "\<exists>m. matches (Star (Atom is_space)) (?T1, []) = (?T1, []) # m"
    using matches_spaces_hd[of "[]" ?T1 "[]"] ca dig by (cases a) auto
  have t1: "?T1 \<noteq> []" "hd ?T1 \<noteq> rupee" using ca dig by (cases a; auto)+
  have h1: "\<exists>m. matches (Opt (Chr rupee)) (cur1 @ ?T1, []) = (?T1, []) # m"
    by (rule matches_Opt_rupee_hd[OF c1 t1])
  from h9 obtain m9 where m9: "matches (Group 2 number_re) (?T6, ?g) = ([], (2, b) # ?g) # m9" ..
  from h8 obtain m8 where m8: "matches (Star (Atom is_space)) (?T6, ?g) = (?T6, ?g) # m8" ..
  from h7 obtain m7 where m7: "matches (Opt (Chr rupee)) (?T5, ?g) = (?T6, ?g) # m7" ..
  from h6 obtain m6 where m6: "matches (Star (Atom is_space)) (?T4, ?g) = (?T5, ?g) # m6" ..
  from h4 obtain m4 where m4: "matches (Star (Atom is_space)) (?T2, ?g) = (?T3, ?g) # m4" ..
  from h3 obtain m3 where m3: "matches (Group 1 number_re) (?T1, []) = (?T2, ?g) # m3" ..
  from h2 obtain m2 where m2: "matches (Star (Atom is_space)) (?T1, []) = (?T1, []) # m2" ..
  from h1 obtain m1 where m1: "matches (Opt (Chr rupee)) (cur1 @ ?T1, []) = (?T1, []) # m1" ..
  from matches_Seq_hd[OF m8 m9] obtain n8 where n8:
    "matches (Seq (Star (Atom is_space)) (Group 2 number_re)) (?T6, ?g) = ([], (2, b) # ?g) # n8" ..
  from matches_Seq_hd[OF m7 n8] obtain n7 where n7:
    "matches (Seq (Opt (Chr rupee)) (Seq (Star (Atom is_space)) (Group 2 number_re))) (?T5, ?g)
       = ([], (2, b) # ?g) # n7" ..
  from matches_Seq_hd[OF m6 n7] obtain n6 where n6:
    "matches (Seq (Star (Atom is_space))
       (Seq (Opt (Chr rupee)) (Seq (Star (Atom is_space)) (Group 2 number_re)))) (?T4, ?g)
       = ([], (2, b) # ?g) # n6" ..
  from matches_Seq_hd[OF h5 n6] obtain n5 where n5:
    "matches (Seq (Atom range_sep) (Seq (Star (Atom is_space))
       (Seq (Opt (Chr rupee)) (Seq (Star (Atom is_space)) (Group 2 number_re))))) (?T3, ?g)
       = ([], (2, b) # ?g) # n5" ..
  from matches_Seq_hd[OF m4 n5] obtain n4 where n4:
    "matches (Seq (Star (Atom is_space)) (Seq (Atom range_sep) (Seq (Star (Atom is_space))
       (Seq (Opt (Chr rupee)) (Seq (Star (Atom is_space)) (Group 2 number_re)))))) (?T2, ?g)
       = ([], (2, b) # ?g) # n4" ..
  from matches_Seq_hd[OF m3 n4] obtain n3 where n3:
    "matches (Seq (Group 1 number_re) (Seq (Star (Atom is_space)) (Seq (Atom range_sep)
       (Seq (Star (Atom is_space)) (Seq (Opt (Chr rupee)) (Seq (Star (Atom is_space))
       (Group 2 number_re))))))) (?T1, []) = ([], (2, b) # ?g) # n3" ..
  from matches_Seq_hd[OF m2 n3] obtain n2 where n2:
    "matches (Seq (Star (Atom is_space)) (Seq (Group 1 number_re) (Seq (Star (Atom is_space))
       (Seq (Atom range_sep) (Seq (Star (Atom is_space)) (Seq (Opt (Chr rupee))
       (Seq (Star (Atom is_space)) (Group 2 number_re)))))))) (?T1, []) = ([], (2, b) # ?g) # n2" ..
  from matches_Seq_hd[OF m1 n2] obtain n1 where
    "matches range_re (cur1 @ ?T1, []) = ([], (2, b) # ?g) # n1" unfolding range_re_def ..
  then show ?thesis by auto
qed

lemma clean_price_text_dash_form:
  assumes a: "accepts number_re a" and b: "accepts number_re b"
    and c1: "cur1 = [] \<or> cur1 = [rupee]" and c2: "cur2 = [] \<or> cur2 = [rupee]"
    and w1: "list_all is_space ws1" and w2: "list_all is_space ws2"
  shows "\<exists>x y r. py_float (remove_commas a) = Some x \<and> py_float (remove_commas b) = Some y \<and>
     clean_price_text (cur1 @ a @ ws1 @ 45 # ws2 @ cur2 @ b) = Inr r \<and>
     is_range r \<and> min_price r = Some x \<and> max_price r = Some y \<and>
     price_info.numeric_price r = Some ((x + y) / 2)"
proof -
  let ?t = "cur1 @ a @ ws1 @ 45 # ws2 @ cur2 @ b"
  note ca = number_re_chars[OF a] and cb = number_re_chars[OF b]
  from number_re_float[OF a] obtain x where x: "py_float (remove_commas a) = Some x" ..
  from number_re_float[OF b] obtain y where y: "py_float (remove_commas b) = Some y" ..
  have ns: "\<not> is_space c" if "is_digit c \<or> c = 44 \<or> c = 46 \<or> c = rupee" for c
    using that by (auto simp: is_digit_def is_space_def rupee_def)
  have ne: "?t \<noteq> []" by simp
  have "hd ?t = rupee \<or> is_digit (hd ?t)" using c1 ca by (cases a) auto
  then have hd: "\<not> is_space (hd ?t)" using ns by auto
  from cb have lb: "last ?t = last b" "last b \<in> set b" by auto
  with cb have "is_digit (last b) \<or> last b = 44 \<or> last b = 46" by blast
  then have "\<not> is_space (last b)" using ns by blast
  with lb have lst: "\<not> is_space (last ?t)" by simp
  have st: "strip ?t = ?t" by (rule strip_id[OF ne hd lst])
  from matches_range_re_hd[OF a b c1 c2 w1 w2] obtain more
    where m: "matches range_re (?t, []) = ([], [(2, b), (1, a)]) # more" ..
  from ne obtain c t where ct: "?t = c # t" by (cases ?t) auto
  have s: "search range_re ?t = Some [(2, b), (1, a)]"
    using m unfolding ct by simp
  have g: "group_float [(2, b), (1, a)] 1 = Inr x" "group_float [(2, b), (1, a)] 2 = Inr y"
    using x y by (simp_all add: group_float_def group_def)
  from ne st s g have "clean_price_text ?t =
      Inr \<lparr>raw_price = ?t, numeric_price = Some ((x + y) / 2), min_price = Some x,
           max_price = Some y, currency = u ''INR'', unit = extract_price_unit ?t,
           is_range = True\<rparr>"
    by (simp add: clean_price_text_def Let_def)
  with x y show ?thesis by simp
qed

lemma accepts_digits:
  assumes "ds \<noteq> []" "list_all is_digit ds"
  shows "accepts number_re ds"
proof -
  have star: "list_all is_digit xs \<Longrightarrow> accepts (Star (Atom is_digit)) xs" for xs
  proof (induction xs)
    case Nil
    show ?case by (rule acc_Star_none)
  next
    case (Cons x xs)
    then have "accepts (Atom is_digit) [x]" "accepts (Star (Atom is_digit)) xs"
      by (auto intro: acc_Atom)
    then have "accepts (Star (Atom is_digit)) ([x] @ xs)" by (rule acc_Star_more)
    then show ?case by simp
  qed
  from assms obtain c t where ds: "ds = c # t" "is_digit c" "list_all is_digit t"
    by (cases ds) auto
  then have "accepts (Seq (Atom is_digit) (Star (Atom is_digit))) ([c] @ t)"
    by (intro acc_Seq acc_Atom star)
  then have "accepts (Plus (Atom is_digit)) ds" by (simp add: Plus_def ds)
  then have "accepts number_re (ds @ [] @ [])"
    unfolding number_re_def by (intro acc_Seq acc_Star_none acc_Opt_none)
  then show ?thesis by simp
qed

section \<open>Properties of price parsing\<close>

text \<open>
  C8. \<open>clean_price_text\<close> applied to the empty string returns a result, not an error, and
  every field of it is absent or at its default: empty raw text, no numeric value, no
  minimum and maximum, the default currency INR, the empty unit and no range.
\<close>

theorem clean_price_text_empty:
  "clean_price_text [] =
     Inr \<lparr>raw_price = [], numeric_price = None, min_price = None, max_price = None,
          currency = u ''INR'', unit = [], is_range = False\<rparr>"
  by (simp add: clean_price_text_def)

text \<open>
  C1, at the text \<open>100 to 500\<close>. The separator of the range pattern is one character of
  the class \<open>[-to]\<close>, so the word \<open>to\<close> between two numbers is no range: the text is read
  as the single price 100, without minimum and maximum, and the trailing number 500 is
  taken for its unit.
\<close>

theorem clean_price_text_to_range:
  "clean_price_text (u ''100 to 500'') =
     Inr \<lparr>raw_price = u ''100 to 500'', numeric_price = Some 100, min_price = None,
          max_price = None, currency = u ''INR'', unit = u ''500'', is_range = False\<rparr>"
  by code_simp

text \<open>With a dash the same numbers are a range, and so is the priced range of a listing;
  \<open>clean_price_text_dash_form\<close> above has the dash form in general.\<close>

lemma clean_price_text_dash_range:
  "clean_price_text (u ''100 - 500'') =
     Inr \<lparr>raw_price = u ''100 - 500'', numeric_price = Some 300, min_price = Some 100,
          max_price = Some 500, currency = u ''INR'', unit = u ''500'', is_range = True\<rparr>"
  by code_simp

lemma clean_price_text_rupee_range:
  "clean_price_text (rupee # u ''1,200 - '' @ rupee # u ''1,800 per kg'') =
     Inr \<lparr>raw_price = rupee # u ''1,200 - '' @ rupee # u ''1,800 per kg'',
          numeric_price = Some 1500, min_price = Some 1200, max_price = Some 1800,
          currency = u ''INR'', unit = u ''kilogram'', is_range = True\<rparr>"
  by code_simp

text \<open>A number with a separator is not one word: the unit is its last run of digits.\<close>

lemma clean_price_text_separated_number:
  "clean_price_text (rupee # u ''1,200'') =
     Inr \<lparr>raw_price = rupee # u ''1,200'', numeric_price = Some 1200, min_price = None,
          max_price = None, currency = u ''INR'', unit = u ''200'', is_range = False\<rparr>"
  by code_simp



section \<open>Properties of text similarity\<close>

lemma split_from_empty_iff:
  "split_from w s = [] \<longleftrightarrow> w = [] \<and> (\<forall>c \<in> set s. is_space c)"
  by (induction s arbitrary: w) auto

lemma split_empty_iff: "split s = [] \<longleftrightarrow> (\<forall>c \<in> set s. is_space c)"
  by (simp add: split_def split_from_empty_iff)

lemma is_space_lower_chr: "is_space (lower_chr c) = is_space c"
  by (auto simp: is_space_def lower_chr_def)

lemma split_lower_empty_iff: "split (lower s) = [] \<longleftrightarrow> (\<forall>c \<in> set s. is_space c)"
  by (simp add: split_empty_iff lower_def is_space_lower_chr)

lemma similarity_self:
  assumes "\<exists>c \<in> set s. \<not> is_space c"
  shows "calculate_text_similarity s s = 1"
proof -
  from assms have ne: "split (lower s) \<noteq> []" by (simp add: split_lower_empty_iff)
  from assms have "s \<noteq> []" by auto
  with ne show ?thesis by (simp add: calculate_text_similarity_def Let_def card_gt_0_iff)
qed

lemma similarity_sym: "calculate_text_similarity a b = calculate_text_similarity b a"
  by (simp add: calculate_text_similarity_def Let_def Int_commute Un_commute disj_commute)

lemma similarity_range:
  "0 \<le> calculate_text_similarity a b \<and> calculate_text_similarity a b \<le> 1"
proof -
  let ?A = "set (split (lower a))" and ?B = "set (split (lower b))"
  have "card (?A \<inter> ?B) \<le> card (?A \<union> ?B)"
    by (rule card_mono) auto
  then have "(of_nat (card (?A \<inter> ?B)) :: rat) \<le> of_nat (card (?A \<union> ?B))"
    by (simp only: of_nat_le_iff)
  then have "card (?A \<union> ?B) > 0 \<Longrightarrow>
    (of_nat (card (?A \<inter> ?B)) :: rat) / of_nat (card (?A \<union> ?B)) \<le> 1"
    by (simp add: divide_le_eq_1)
  then show ?thesis
    by (auto simp: calculate_text_similarity_def Let_def)
qed

lemma similarity_zero:
  assumes "a = [] \<or> b = [] \<or> set (split (lower a)) \<union> set (split (lower b)) = {}"
  shows "calculate_text_similarity a b = 0"
  using assms by (auto simp: calculate_text_similarity_def Let_def)

text \<open>
  C7, as amended. For every string with at least one character that is not whitespace,
  the similarity of the string with itself is 1; the similarity is symmetric; it lies
  between 0 and 1; and it is 0 when either text is empty or the two word sets together
  are empty.
\<close>

theorem text_similarity_properties:
  "((\<exists>c \<in> set s. \<not> is_space c) \<longrightarrow> calculate_text_similarity s s = 1) \<and>
   calculate_text_similarity a b = calculate_text_similarity b a \<and>
   0 \<le> calculate_text_similarity a b \<and> calculate_text_similarity a b \<le> 1 \<and>
   (a = [] \<or> b = [] \<or> set (split (lower a)) \<union> set (split (lower b)) = {}
      \<longrightarrow> calculate_text_similarity a b = 0)"
  using similarity_self[of s] similarity_sym[of a b] similarity_range[of a b]
    similarity_zero[of a b] by blast

text \<open>
  The properties at the titles \<open>steel pipe\<close> and \<open>Pipe fitting\<close>.
\<close>

theorem text_similarity_properties_witness:
  "calculate_text_similarity (u ''steel pipe'') (u ''steel pipe'') = 1 \<and>
   calculate_text_similarity (u ''steel pipe'') (u ''Pipe fitting'') =
     calculate_text_similarity (u ''Pipe fitting'') (u ''steel pipe'') \<and>
   calculate_text_similarity (u ''steel pipe'') [] = 0"
proof -
  have "\<not> is_space 115" by (simp add: is_space_def)
  then have "\<exists>c \<in> set (u ''steel pipe''). \<not> is_space c" by (simp add: u_def)
  with text_similarity_properties[of "u ''steel pipe''" "u ''steel pipe''" "[]"]
    text_similarity_properties[of "[]" "u ''steel pipe''" "u ''Pipe fitting''"]
  show ?thesis by blast
qed

text \<open>
  C7 as stated fails at a non-empty string without a word: a single space has no words,
  the union of the word sets is empty, and the similarity of the string with itself is 0.
\<close>

theorem text_similarity_blank_counterexample:
  "u '' '' \<noteq> [] \<and> calculate_text_similarity (u '' '') (u '' '') \<noteq> 1"
  by code_simp

section \<open>Properties of exact deduplication\<close>

text \<open>After the text stage a cell of a text column is a string or missing, the two shapes
  for which the key below is the lowered title, an underscore and the lowered supplier.\<close>

lemma clean_text_cell_shape:
  "clean_text_cell rt c = NaN \<or> (\<exists>s. clean_text_cell rt c = Str s)"
  by (simp add: clean_text_cell_def Let_def)








lemma dedup_key_update [simp]: "dedup_key (r(''dedup_key'' := v)) = dedup_key r"
  by (simp add: dedup_key_def cell_of_def)







section \<open>Properties of the similarity deduplicator\<close>

lemma length_pair_flags [simp]: "length (pair_flags df thr i f j) = length f"
  by (simp add: pair_flags_def)



























text \<open>A pair that is flagged while a title is missing ends the run in the log line.\<close>

lemma detect_duplicate_products_missing_title:
  "detect_duplicate_products
     [\<lparr>title = None, supplier_name = Some (u ''ACME''), numeric_price = Some 100\<rparr>,
      \<lparr>title = None, supplier_name = Some (u ''ACME''), numeric_price = Some 100\<rparr>]
     (7 / 10) = Inl TypeError"
  by code_simp




section \<open>Properties of location matching\<close>








section \<open>Properties of unit standardization\<close>


lemma standardized_unit_other [simp]:
  "standardized_unit NaN = NaN" "standardized_unit (Num x) = NaN" "standardized_unit (Flag b) = NaN"
  by (simp_all add: standardized_unit_def str_lower_def map_unit_def fillna_def)


lemma rows_map_column [simp]:
  "rows (map_column col f df) = map (\<lambda>r. r(col \<mapsto> f (cell_of r col))) (rows df)"
  "columns (map_column col f df) = columns df"
  by (simp_all add: map_column_def)

lemma rows_set_column [simp]:
  "rows (set_column col f df) = map (\<lambda>r. r(col \<mapsto> f r)) (rows df)"
  "set (columns (set_column col f df)) = insert col (set (columns df))"
  by (auto simp: set_column_def)





section \<open>Properties of listing links\<close>

lemma link_url_mem:
  "x \<in> set (link_url urljoin href) \<longleftrightarrow>
   (\<exists>h. href = Some h \<and> h \<noteq> [] \<and>
        x = (if startswith h (u ''http'') then h else urljoin base_url h))"
  by (auto simp: link_url_def split: option.splits)

text \<open>
  C9, as amended. A URL is returned by \<open>get_product_urls\<close> exactly when some link found
  by any of the four selectors has a non-empty \<open>href\<close> of which it is the value: the
  \<open>href\<close> itself when that starts with \<open>http\<close>, and the \<open>href\<close> joined to the base URL
  otherwise. The result is a set, without order or repetition.
\<close>

theorem get_product_urls_all_selectors:
  "x \<in> get_product_urls urljoin soup_select \<longleftrightarrow>
   (\<exists>selector \<in> set link_selectors. \<exists>h. Some h \<in> set (soup_select selector) \<and> h \<noteq> [] \<and>
      x = (if startswith h (u ''http'') then h else urljoin base_url h))"
  unfolding get_product_urls_def by (auto simp: link_url_mem)

text \<open>
  The theorem at a page with links under two selectors: the relative link under the
  second selector is returned, joined to the base URL.
\<close>

theorem get_product_urls_all_selectors_witness:
  "u ''https://www.indiamart.com/proddetail/2.html'' \<in> get_product_urls (@) two_layout_page"
proof -
  have "''.lst a'' \<in> set link_selectors" by (simp add: link_selectors_def)
  moreover have "Some (u ''/proddetail/2.html'') \<in> set (two_layout_page ''.lst a'')"
    by (simp add: two_layout_page_def)
  moreover have "u ''/proddetail/2.html'' \<noteq> []" by (simp add: u_def)
  moreover have "u ''https://www.indiamart.com/proddetail/2.html'' =
      (if startswith (u ''/proddetail/2.html'') (u ''http'') then u ''/proddetail/2.html''
       else base_url @ u ''/proddetail/2.html'')"
    by code_simp
  ultimately show ?thesis
    using get_product_urls_all_selectors[of "u ''https://www.indiamart.com/proddetail/2.html''" "(@)" two_layout_page]
    by blast
qed

text \<open>
  C9 as stated fails at that page: the first selector has a match, and the link under
  the second selector is returned all the same.
\<close>

theorem get_product_urls_second_selector_counterexample:
  "two_layout_page ''.prd a'' \<noteq> [] \<and>
   get_product_urls (@) two_layout_page =
     {u ''https://www.indiamart.com/proddetail/1.html'',
      u ''https://www.indiamart.com/proddetail/2.html''}"
  by (simp add: get_product_urls_def link_selectors_def two_layout_page_def link_url_def
      startswith_def base_url_def u_def)

section \<open>Properties of the cleaning pipeline\<close>

lemma columns_clean_text_columns [simp]: "columns (clean_text_columns rt df) = columns df"
  by (simp add: clean_text_columns_def text_columns_def)

lemma clean_text_columns_absent:
  "set text_columns \<inter> set (columns df) = {} \<Longrightarrow> clean_text_columns rt df = df"
  by (simp add: clean_text_columns_def text_columns_def)

lemma standardize_prices_absent:
  "''numeric_price'' \<notin> set (columns df) \<Longrightarrow> standardize_prices rt df = df"
  by (simp add: standardize_prices_def)

lemma standardize_locations_absent:
  "''location'' \<notin> set (columns df) \<Longrightarrow> standardize_locations rt df = df"
  by (simp add: standardize_locations_def)

lemma columns_standardize_prices:
  "set (columns (standardize_prices rt df)) \<subseteq>
     set (columns df) \<union> {''price_outlier'', ''standardized_unit''}"
  "set (columns df) \<subseteq> set (columns (standardize_prices rt df))"
  by (auto simp: standardize_prices_def Let_def)

lemma columns_standardize_locations:
  "set (columns (standardize_locations rt df)) \<subseteq> set (columns df) \<union> {''extracted_state''}"
  "set (columns df) \<subseteq> set (columns (standardize_locations rt df))"
  by (auto simp: standardize_locations_def)

lemma key_column_kept:
  assumes "col = ''title'' \<or> col = ''supplier_name''"
  shows "col \<in> set (columns (standardize_locations rt (standardize_prices rt (clean_text_columns rt df))))
     \<longleftrightarrow> col \<in> set (columns df)"
proof -
  let ?p = "standardize_prices rt (clean_text_columns rt df)"
  from assms have n: "col \<notin> {''price_outlier'', ''standardized_unit'', ''extracted_state''}" by auto
  have "col \<in> set (columns (standardize_locations rt ?p)) \<longleftrightarrow> col \<in> set (columns ?p)"
    using columns_standardize_locations[where rt=rt and df="?p"] n by auto
  also have "\<dots> \<longleftrightarrow> col \<in> set (columns (clean_text_columns rt df))"
    using columns_standardize_prices[where rt=rt and df="clean_text_columns rt df"] n by auto
  finally show ?thesis by simp
qed

lemma clean_dataset_missing_title:
  "''title'' \<notin> set (columns df) \<Longrightarrow> clean_dataset rt df = Inl (KeyError ''title'')"
  by (simp add: clean_dataset_def remove_duplicates_def key_column_kept)

lemma clean_dataset_missing_supplier:
  "''title'' \<in> set (columns df) \<Longrightarrow> ''supplier_name'' \<notin> set (columns df) \<Longrightarrow>
   clean_dataset rt df = Inl (KeyError ''supplier_name'')"
  by (simp add: clean_dataset_def remove_duplicates_def key_column_kept)

text \<open>
  C2, at a table with the columns \<open>title\<close>, \<open>location\<close> and \<open>numeric_price\<close> and no
  column \<open>supplier_name\<close>. The first three stages run, and \<open>remove_duplicates\<close> reads
  the absent column: the pipeline ends in \<open>KeyError\<close>, where the stages before it test
  for their columns and leave the table as it is (the lemmas above).
\<close>

theorem clean_dataset_without_supplier:
  "clean_dataset rt listing_without_supplier = Inl (KeyError ''supplier_name'')"
  by (rule clean_dataset_missing_supplier) (simp_all add: listing_without_supplier_def)

end
